theory Spec2Isabelle
  imports Main "HOL-Library.AList" "HOL-Library.Char_ord" "HOL-Library.List_Lexorder"
    "HOL-Library.Product_Lexorder" "HOL-Library.Multiset"
begin

section \<open>Data model of the availability service\<close>

text \<open>
  The service (\<^verbatim>\<open>src/services/availabilityService.ts\<close>) reads and writes two collections
  of a hosted document store: \<^verbatim>\<open>calendar\<close>, one document per date, and \<^verbatim>\<open>bookings\<close>.
  A stored document is a map from field names to values; a field that was never written is
  absent. Record fields carry a prefix (\<open>slot_\<close>, \<open>ad_\<close>, \<open>b_\<close>, \<open>bd_\<close>) because the
  source uses the same field names in several interfaces.
\<close>

type_synonym Timestamp = nat

text \<open>\<^verbatim>\<open>interface TimeSlot { time: string; isAvailable: boolean; bookedBy?: string }\<close>\<close>

record TimeSlot =
  slot_time :: string
  slot_isAvailable :: bool
  slot_bookedBy :: "string option"

text \<open>
  \<^verbatim>\<open>interface AvailabilityDate { date: string; isAvailable: boolean; slots?: TimeSlot[] }\<close>
  together with the \<^verbatim>\<open>updatedAt\<close> stamp that every write adds. The record is the document
  as stored, and also the object literal handed to a write: \<open>None\<close> is a field that is not
  there. \<^verbatim>\<open>snap.data() as AvailabilityDate\<close> is an unchecked cast, so what the service reads is
  this record.
\<close>

record AvailabilityDate =
  ad_date :: "string option"
  ad_isAvailable :: "bool option"
  ad_slots :: "TimeSlot list option"
  ad_updatedAt :: "Timestamp option"

text \<open>\<^verbatim>\<open>status: 'pending' | 'confirmed' | 'cancelled'\<close>\<close>

datatype BookingStatus = Pending | Confirmed | Cancelled

text \<open>\<^verbatim>\<open>interface Booking\<close>, the argument of \<^verbatim>\<open>createBooking\<close>.\<close>

record Booking =
  b_id :: "string option"
  b_serviceId :: string
  b_serviceName :: string
  b_date :: string
  b_time :: string
  b_clientName :: string
  b_clientEmail :: string
  b_clientPhone :: string
  b_clientMessage :: "string option"
  b_status :: BookingStatus

text \<open>The object \<^verbatim>\<open>cleanBooking\<close> that \<^verbatim>\<open>createBooking\<close> writes to the \<^verbatim>\<open>bookings\<close> collection.\<close>

record BookingDoc =
  bd_serviceId :: string
  bd_serviceName :: string
  bd_date :: string
  bd_time :: string
  bd_clientName :: string
  bd_clientEmail :: string
  bd_clientPhone :: string
  bd_clientMessage :: string
  bd_status :: BookingStatus
  bd_createdAt :: Timestamp
  bd_updatedAt :: Timestamp

text \<open>
  Errors are values. \<open>FirebaseError code\<close> is an error raised by the store client
  (\<^verbatim>\<open>unavailable\<close>, \<^verbatim>\<open>permission-denied\<close>, \<^verbatim>\<open>not-found\<close>, ...); \<open>Error msg\<close> is an object
  made by \<^verbatim>\<open>new Error(msg)\<close>.
\<close>

datatype error = FirebaseError string | Error string

section \<open>The world outside the service\<close>

text \<open>
  Everything the service touches is threaded through explicitly:
  \<^item> \<open>calendar\<close> and \<open>bookings\<close>: the two collections, as association lists from document
    identifier to document;
  \<^item> \<open>clock\<close>, \<open>ticks\<close>: the \<open>n\<close>-th evaluation of \<^verbatim>\<open>Timestamp.now()\<close> reads \<open>clock n\<close>;
  \<^item> \<open>faults\<close>, \<open>calls\<close>: the \<open>n\<close>-th request sent to the store fails with \<open>e\<close> when
    \<open>faults n = Some e\<close> (network, permission, transient failures), and is carried out when
    it is \<open>None\<close>;
  \<^item> \<open>entropy\<close>, \<open>draws\<close>: the random numbers from which the store client builds the
    identifier of a document added with \<^verbatim>\<open>addDoc\<close>.
  Quantifying over the three schedules covers every behaviour of clock, network and
  random source. A request that fails leaves both collections as they were.
  \<^verbatim>\<open>doc(db, 'calendar', date)\<close> addresses a document by the date string, and any string is
  an identifier here. Calls to \<^verbatim>\<open>console.log\<close> and \<^verbatim>\<open>console.error\<close> have no effect on
  results or on the store and are left out, and so are the two \<^verbatim>\<open>subscribe\<close> functions,
  which register callbacks and return at once.
\<close>

record world =
  calendar :: "(string \<times> AvailabilityDate) list"
  bookings :: "(string \<times> BookingDoc) list"
  clock :: "nat \<Rightarrow> Timestamp"
  ticks :: nat
  faults :: "nat \<Rightarrow> error option"
  calls :: nat
  entropy :: "nat \<Rightarrow> nat"
  draws :: nat

text \<open>\<^verbatim>\<open>Timestamp.now()\<close>\<close>

definition Timestamp_now :: "world \<Rightarrow> Timestamp \<times> world" where
  "Timestamp_now w = (clock w (ticks w), w\<lparr>ticks := ticks w + 1\<rparr>)"

text \<open>One request to the store: it consumes one entry of the fault schedule.\<close>

definition store_call :: "world \<Rightarrow> error option \<times> world" where
  "store_call w = (faults w (calls w), w\<lparr>calls := calls w + 1\<rparr>)"

text \<open>
  A write with \<^verbatim>\<open>{ merge: true }\<close>, and \<^verbatim>\<open>updateDoc\<close>, replace exactly the fields
  that the written object has and keep the others; an array field is replaced as a whole.
\<close>

definition merge_fields :: "AvailabilityDate \<Rightarrow> AvailabilityDate \<Rightarrow> AvailabilityDate" where
  "merge_fields new old =
     \<lparr>ad_date = (case ad_date new of None \<Rightarrow> ad_date old | Some v \<Rightarrow> Some v),
      ad_isAvailable = (case ad_isAvailable new of None \<Rightarrow> ad_isAvailable old | Some v \<Rightarrow> Some v),
      ad_slots = (case ad_slots new of None \<Rightarrow> ad_slots old | Some v \<Rightarrow> Some v),
      ad_updatedAt = (case ad_updatedAt new of None \<Rightarrow> ad_updatedAt old | Some v \<Rightarrow> Some v)\<rparr>"

text \<open>\<^verbatim>\<open>getDoc(doc(db, 'calendar', key))\<close>: \<open>None\<close> is a snapshot with \<^verbatim>\<open>exists()\<close> false.\<close>

definition getDoc_calendar :: "string \<Rightarrow> world \<Rightarrow> (error + AvailabilityDate option) \<times> world" where
  "getDoc_calendar key w =
     (case store_call w of
        (Some e, w') \<Rightarrow> (Inl e, w')
      | (None, w') \<Rightarrow> (Inr (map_of (calendar w') key), w'))"

text \<open>\<^verbatim>\<open>setDoc(ref, data)\<close>: creates the document or overwrites it as a whole.\<close>

definition setDoc_calendar :: "string \<Rightarrow> AvailabilityDate \<Rightarrow> world \<Rightarrow> (error + unit) \<times> world" where
  "setDoc_calendar key data w =
     (case store_call w of
        (Some e, w') \<Rightarrow> (Inl e, w')
      | (None, w') \<Rightarrow> (Inr (), w'\<lparr>calendar := AList.update key data (calendar w')\<rparr>))"

text \<open>\<^verbatim>\<open>setDoc(ref, data, { merge: true })\<close>: creates the document or merges into it.\<close>

definition setDoc_merge_calendar ::
  "string \<Rightarrow> AvailabilityDate \<Rightarrow> world \<Rightarrow> (error + unit) \<times> world" where
  "setDoc_merge_calendar key data w =
     (case store_call w of
        (Some e, w') \<Rightarrow> (Inl e, w')
      | (None, w') \<Rightarrow>
          (Inr (), w'\<lparr>calendar :=
             AList.update key
               (case map_of (calendar w') key of
                  None \<Rightarrow> data
                | Some old \<Rightarrow> merge_fields data old)
               (calendar w')\<rparr>))"

text \<open>\<^verbatim>\<open>updateDoc(ref, data)\<close>: merges into an existing document, fails on a missing one.\<close>

definition updateDoc_calendar ::
  "string \<Rightarrow> AvailabilityDate \<Rightarrow> world \<Rightarrow> (error + unit) \<times> world" where
  "updateDoc_calendar key data w =
     (case store_call w of
        (Some e, w') \<Rightarrow> (Inl e, w')
      | (None, w') \<Rightarrow>
          (case map_of (calendar w') key of
             None \<Rightarrow> (Inl (FirebaseError ''not-found''), w')
           | Some old \<Rightarrow>
               (Inr (), w'\<lparr>calendar := AList.update key (merge_fields data old) (calendar w')\<rparr>)))"

text \<open>\<^verbatim>\<open>try { ... } catch (error) { ... }\<close> and \<^verbatim>\<open>throw\<close>\<close>

definition try_catch ::
  "(world \<Rightarrow> (error + 'a) \<times> world) \<Rightarrow> (error \<Rightarrow> world \<Rightarrow> (error + 'a) \<times> world)
     \<Rightarrow> world \<Rightarrow> (error + 'a) \<times> world" where
  "try_catch body handler w =
     (case body w of
        (Inl e, w') \<Rightarrow> handler e w'
      | (Inr v, w') \<Rightarrow> (Inr v, w'))"

definition throw :: "error \<Rightarrow> world \<Rightarrow> (error + 'a) \<times> world" where
  "throw e w = (Inl e, w)"

section \<open>Availability\<close>

text \<open>
  \<^verbatim>\<open>setDateAvailability(date, isAvailable, slots = [])\<close>. The third argument is \<open>None\<close> when the
  caller leaves it out, and the default parameter then makes it the empty array. The object
  literal is built, reading the clock, before the write is sent.
\<close>

definition setDateAvailability ::
  "string \<Rightarrow> bool \<Rightarrow> TimeSlot list option \<Rightarrow> world \<Rightarrow> (error + unit) \<times> world" where
  "setDateAvailability date isAvailable_arg slots_arg =
     try_catch
       (\<lambda>w.
          let slots = (case slots_arg of None \<Rightarrow> [] | Some xs \<Rightarrow> xs);
              (now, w1) = Timestamp_now w
          in setDoc_merge_calendar date
               \<lparr>ad_date = Some date, ad_isAvailable = Some isAvailable_arg,
                ad_slots = Some slots, ad_updatedAt = Some now\<rparr> w1)
       (\<lambda>error. throw error)"

text \<open>
  \<^verbatim>\<open>setBatchAvailability(dates, isAvailable)\<close>:
  \<^verbatim>\<open>await Promise.all(dates.map((date) => setDateAvailability(date, isAvailable)))\<close>.
  \<open>start_all\<close> is the \<^verbatim>\<open>map\<close>: every call is started, in the order of the list, whatever
  becomes of the others. \<open>Promise_all\<close> rejects with a rejection among the results; in this
  sequential model the requests complete in the order they were sent, so it is the first.
\<close>

fun start_all ::
  "(world \<Rightarrow> (error + 'a) \<times> world) list \<Rightarrow> world \<Rightarrow> (error + 'a) list \<times> world" where
  "start_all [] w = ([], w)"
| "start_all (p # ps) w =
     (case p w of (r, w1) \<Rightarrow> (case start_all ps w1 of (rs, w2) \<Rightarrow> (r # rs, w2)))"

fun Promise_all :: "(error + 'a) list \<Rightarrow> error + 'a list" where
  "Promise_all [] = Inr []"
| "Promise_all (Inl e # rs) = Inl e"
| "Promise_all (Inr v # rs) =
     (case Promise_all rs of Inl e \<Rightarrow> Inl e | Inr vs \<Rightarrow> Inr (v # vs))"

definition setBatchAvailability :: "string list \<Rightarrow> bool \<Rightarrow> world \<Rightarrow> (error + unit) \<times> world" where
  "setBatchAvailability dates isAvailable_arg =
     try_catch
       (\<lambda>w.
          case start_all (map (\<lambda>date. setDateAvailability date isAvailable_arg None) dates) w of
            (rs, w1) \<Rightarrow>
              (case Promise_all rs of Inl e \<Rightarrow> (Inl e, w1) | Inr vs \<Rightarrow> (Inr (), w1)))
       (\<lambda>error. throw error)"

text \<open>
  \<^verbatim>\<open>getDateAvailability(date)\<close>:
  \<^verbatim>\<open>return snap.exists() ? (snap.data() as AvailabilityDate) : null\<close>
\<close>

definition getDateAvailability ::
  "string \<Rightarrow> world \<Rightarrow> (error + AvailabilityDate option) \<times> world" where
  "getDateAvailability date =
     try_catch
       (\<lambda>w.
          case getDoc_calendar date w of
            (Inl e, w1) \<Rightarrow> (Inl e, w1)
          | (Inr snap, w1) \<Rightarrow>
              (Inr (case snap of Some data \<Rightarrow> Some data | None \<Rightarrow> None), w1))
       (\<lambda>error. throw error)"

text \<open>
  \<^verbatim>\<open>query(calendarRef, where('date', '>=', startDate), where('date', '<=', endDate))\<close>
  selects on the \<^verbatim>\<open>date\<close> field of the documents: a document without the field matches
  no filter. Strings compare lexicographically, character by character. The store returns
  the result of a query with a range filter in ascending order of the filtered field, and
  documents with equal values in the order of their identifiers.
\<close>

definition date_in_range :: "string \<Rightarrow> string \<Rightarrow> AvailabilityDate \<Rightarrow> bool" where
  "date_in_range startDate endDate data =
     (case ad_date data of
        None \<Rightarrow> False
      | Some d \<Rightarrow> startDate \<le> d \<and> d \<le> endDate)"

definition date_of :: "AvailabilityDate \<Rightarrow> string" where
  "date_of data = (case ad_date data of None \<Rightarrow> [] | Some d \<Rightarrow> d)"

definition query_order :: "string \<times> AvailabilityDate \<Rightarrow> string \<times> string" where
  "query_order entry = (date_of (snd entry), fst entry)"

definition getDocs_calendar_range ::
  "string \<Rightarrow> string \<Rightarrow> world \<Rightarrow> (error + (string \<times> AvailabilityDate) list) \<times> world" where
  "getDocs_calendar_range startDate endDate w =
     (case store_call w of
        (Some e, w') \<Rightarrow> (Inl e, w')
      | (None, w') \<Rightarrow>
          (Inr (sort_key query_order
                  (filter (\<lambda>entry. date_in_range startDate endDate (snd entry)) (calendar w'))),
           w'))"

text \<open>
  \<^verbatim>\<open>getAvailabilityRange(startDate, endDate)\<close>:
  \<^verbatim>\<open>return snapshot.docs.map((doc) => doc.data() as AvailabilityDate)\<close>
\<close>

definition getAvailabilityRange ::
  "string \<Rightarrow> string \<Rightarrow> world \<Rightarrow> (error + AvailabilityDate list) \<times> world" where
  "getAvailabilityRange startDate endDate =
     try_catch
       (\<lambda>w.
          case getDocs_calendar_range startDate endDate w of
            (Inl e, w1) \<Rightarrow> (Inl e, w1)
          | (Inr docs, w1) \<Rightarrow> (Inr (map snd docs), w1))
       (\<lambda>error. throw error)"

section \<open>Time slot booking\<close>

text \<open>
  \<^verbatim>\<open>bookTimeSlot(date, time, clientEmail)\<close> has no \<^verbatim>\<open>try\<close>: an error of either request leaves
  the function as it is. \<^verbatim>\<open>{ ...s, isAvailable: false, bookedBy: clientEmail }\<close> is a record
  update; \<^verbatim>\<open>data.slots || []\<close> is the empty list for a missing field;
  \<^verbatim>\<open>!slots.find((s) => s.time === time)\<close> holds when no slot has the time.
\<close>

definition book_slot :: "string \<Rightarrow> string \<Rightarrow> TimeSlot \<Rightarrow> TimeSlot" where
  "book_slot time clientEmail s =
     (if slot_time s = time
      then s\<lparr>slot_isAvailable := False, slot_bookedBy := Some clientEmail\<rparr>
      else s)"

definition bookTimeSlot :: "string \<Rightarrow> string \<Rightarrow> string \<Rightarrow> world \<Rightarrow> (error + unit) \<times> world" where
  "bookTimeSlot date time clientEmail w =
     (case getDoc_calendar date w of
        (Inl e, w1) \<Rightarrow> (Inl e, w1)
      | (Inr None, w1) \<Rightarrow>
          (case Timestamp_now w1 of
             (now, w2) \<Rightarrow>
               setDoc_calendar date
                 \<lparr>ad_date = Some date, ad_isAvailable = Some True,
                  ad_slots = Some [\<lparr>slot_time = time, slot_isAvailable = False,
                                    slot_bookedBy = Some clientEmail\<rparr>],
                  ad_updatedAt = Some now\<rparr> w2)
      | (Inr (Some data), w1) \<Rightarrow>
          (let slots = (case ad_slots data of None \<Rightarrow> [] | Some xs \<Rightarrow> xs);
               updatedSlots = map (book_slot time clientEmail) slots;
               updatedSlots =
                 (if find (\<lambda>s. slot_time s = time) slots = None
                  then updatedSlots @ [\<lparr>slot_time = time, slot_isAvailable = False,
                                         slot_bookedBy = Some clientEmail\<rparr>]
                  else updatedSlots)
           in case Timestamp_now w1 of
                (now, w2) \<Rightarrow>
                  updateDoc_calendar date
                    \<lparr>ad_date = None, ad_isAvailable = None,
                     ad_slots = Some updatedSlots, ad_updatedAt = Some now\<rparr> w2))"

section \<open>Bookings\<close>

text \<open>
  \<^verbatim>\<open>addDoc(collection(db, 'bookings'), data)\<close> stores the document under an identifier
  that the store client generates: twenty characters drawn at random from the letters and
  digits.
\<close>

definition alphabet :: string where
  "alphabet = ''ABCDEFGHIJKLMNOPQRSTUVWXYZabcdefghijklmnopqrstuvwxyz0123456789''"

definition autoId :: "world \<Rightarrow> string \<times> world" where
  "autoId w =
     (map (\<lambda>i. alphabet ! (entropy w (draws w + i) mod 62)) [0..<20],
      w\<lparr>draws := draws w + 20\<rparr>)"

definition addDoc_bookings :: "BookingDoc \<Rightarrow> world \<Rightarrow> (error + string) \<times> world" where
  "addDoc_bookings data w =
     (case autoId w of
        (newId, w1) \<Rightarrow>
          (case store_call w1 of
             (Some e, w2) \<Rightarrow> (Inl e, w2)
           | (None, w2) \<Rightarrow> (Inr newId, w2\<lparr>bookings := AList.update newId data (bookings w2)\<rparr>)))"

text \<open>\<^verbatim>\<open>getDocs(collection(db, 'bookings'))\<close>: every document, in the order of the identifiers.\<close>

definition getDocs_bookings :: "world \<Rightarrow> (error + (string \<times> BookingDoc) list) \<times> world" where
  "getDocs_bookings w =
     (case store_call w of
        (Some e, w') \<Rightarrow> (Inl e, w')
      | (None, w') \<Rightarrow> (Inr (sort_key fst (bookings w')), w'))"

text \<open>\<^verbatim>\<open>updateDoc(doc(db, 'bookings', id), { status, updatedAt })\<close>\<close>

definition updateDoc_bookings ::
  "string \<Rightarrow> BookingStatus \<Rightarrow> Timestamp \<Rightarrow> world \<Rightarrow> (error + unit) \<times> world" where
  "updateDoc_bookings key status_arg now w =
     (case store_call w of
        (Some e, w') \<Rightarrow> (Inl e, w')
      | (None, w') \<Rightarrow>
          (case map_of (bookings w') key of
             None \<Rightarrow> (Inl (FirebaseError ''not-found''), w')
           | Some old \<Rightarrow>
               (Inr (), w'\<lparr>bookings :=
                  AList.update key (old\<lparr>bd_status := status_arg, bd_updatedAt := now\<rparr>)
                    (bookings w')\<rparr>)))"

text \<open>
  The object literal \<^verbatim>\<open>cleanBooking\<close> of \<^verbatim>\<open>createBooking\<close>. \<^verbatim>\<open>String(x)\<close> of a string is the
  string; \<^verbatim>\<open>booking.clientMessage || ''\<close> is the empty string for a missing message;
  \<^verbatim>\<open>status: booking.status\<close>; \<^verbatim>\<open>Timestamp.now()\<close> is evaluated once for each of the two
  stamps.
\<close>

definition cleanBooking :: "Booking \<Rightarrow> world \<Rightarrow> BookingDoc \<times> world" where
  "cleanBooking booking w =
     (case Timestamp_now w of
        (createdAt, w1) \<Rightarrow>
          (case Timestamp_now w1 of
             (updatedAt, w2) \<Rightarrow>
               (\<lparr>bd_serviceId = b_serviceId booking,
                 bd_serviceName = b_serviceName booking,
                 bd_date = b_date booking,
                 bd_time = b_time booking,
                 bd_clientName = b_clientName booking,
                 bd_clientEmail = b_clientEmail booking,
                 bd_clientPhone = b_clientPhone booking,
                 bd_clientMessage = (case b_clientMessage booking of None \<Rightarrow> [] | Some m \<Rightarrow> m),
                 bd_status = b_status booking,
                 bd_createdAt = createdAt,
                 bd_updatedAt = updatedAt\<rparr>, w2)))"

text \<open>
  \<^verbatim>\<open>createBooking(booking)\<close>: the record is added, then the slot is booked; the handler of
  the \<^verbatim>\<open>try\<close> throws \<^verbatim>\<open>new Error('Booking failed. Please try again.')\<close> for any error.
\<close>

definition createBooking :: "Booking \<Rightarrow> world \<Rightarrow> (error + string) \<times> world" where
  "createBooking booking =
     try_catch
       (\<lambda>w.
          case cleanBooking booking w of
            (data, w2) \<Rightarrow>
              (case addDoc_bookings data w2 of
                 (Inl e, w3) \<Rightarrow> (Inl e, w3)
               | (Inr docRef_id, w3) \<Rightarrow>
                   (case bookTimeSlot (b_date booking) (b_time booking) (b_clientEmail booking) w3 of
                      (Inl e, w4) \<Rightarrow> (Inl e, w4)
                    | (Inr u, w4) \<Rightarrow> (Inr docRef_id, w4))))
       (\<lambda>error. throw (Error ''Booking failed. Please try again.''))"

text \<open>
  \<^verbatim>\<open>getAllBookings()\<close>:
  \<^verbatim>\<open>snapshot.docs.map((doc) => ({ id: doc.id, ...doc.data() } as Booking))\<close>; the result
  pairs each identifier with the stored fields.
\<close>

definition getAllBookings :: "world \<Rightarrow> (error + (string \<times> BookingDoc) list) \<times> world" where
  "getAllBookings =
     try_catch
       (\<lambda>w.
          case getDocs_bookings w of
            (Inl e, w1) \<Rightarrow> (Inl e, w1)
          | (Inr docs, w1) \<Rightarrow> (Inr docs, w1))
       (\<lambda>error. throw error)"

text \<open>\<^verbatim>\<open>updateBookingStatus(bookingId, status)\<close>\<close>

definition updateBookingStatus ::
  "string \<Rightarrow> BookingStatus \<Rightarrow> world \<Rightarrow> (error + unit) \<times> world" where
  "updateBookingStatus bookingId status_arg =
     try_catch
       (\<lambda>w.
          case Timestamp_now w of
            (now, w1) \<Rightarrow> updateDoc_bookings bookingId status_arg now w1)
       (\<lambda>error. throw error)"

section \<open>The availability check of the calendar library\<close>

text \<open>
  Modelled from the spec: the declarations of \<^verbatim>\<open>CalendarDoc\<close> and \<^verbatim>\<open>TimeSlot\<close>, which
  \<^verbatim>\<open>src/lib/calendar.ts\<close> imports from \<^verbatim>\<open>@/types\<close>, are not among the sources. The data model
  of the specification gives a calendar document a day-level availability flag and an
  optional list of slots, and a slot a time and an availability flag; the field names are
  the ones that \<^verbatim>\<open>isAvailable\<close> and \<^verbatim>\<open>generateDefaultSlots\<close> read and write
  (\<^verbatim>\<open>available\<close>, \<^verbatim>\<open>slots\<close>, \<^verbatim>\<open>time\<close>).
\<close>

record CalendarSlot =
  cs_time :: string
  cs_available :: bool

record CalendarDoc =
  cd_available :: bool
  cd_slots :: "CalendarSlot list option"

text \<open>
  \<^verbatim>\<open>if (!calendarDoc) return true;\<close>
  \<^verbatim>\<open>return calendarDoc.available && (calendarDoc.slots?.some(slot => slot.available) ?? true);\<close>
\<close>

definition isAvailable :: "CalendarDoc option \<Rightarrow> bool" where
  "isAvailable calendarDoc =
     (case calendarDoc of
        None \<Rightarrow> True
      | Some c \<Rightarrow>
          cd_available c \<and>
          (case cd_slots c of None \<Rightarrow> True | Some ss \<Rightarrow> list_ex cs_available ss))"

section \<open>Notions used in the statements\<close>

text \<open>
  The list that \<^verbatim>\<open>bookTimeSlot\<close> writes for a stored list \<open>slots\<close>: the mapped list, with
  the new slot pushed when no slot had the time.
\<close>

definition updated_slots :: "string \<Rightarrow> string \<Rightarrow> TimeSlot list \<Rightarrow> TimeSlot list" where
  "updated_slots time clientEmail slots =
     (if find (\<lambda>s. slot_time s = time) slots = None
      then map (book_slot time clientEmail) slots @
           [\<lparr>slot_time = time, slot_isAvailable = False, slot_bookedBy = Some clientEmail\<rparr>]
      else map (book_slot time clientEmail) slots)"

text \<open>
  The world in the middle of \<^verbatim>\<open>createBooking\<close>, when \<^verbatim>\<open>addDoc\<close> has stored the record and
  \<^verbatim>\<open>bookTimeSlot\<close> has not started: the clock was read twice, an identifier was drawn, one
  request was sent, and the record is in the collection.
\<close>

definition record_added :: "Booking \<Rightarrow> world \<Rightarrow> world" where
  "record_added booking w =
     w\<lparr>ticks := ticks w + 2, draws := draws w + 20, calls := calls w + 1,
       bookings := AList.update (fst (autoId w)) (fst (cleanBooking booking w)) (bookings w)\<rparr>"

text \<open>
  Every calendar document carries its own identifier in its \<^verbatim>\<open>date\<close> field. Both writers
  of the service store \<^verbatim>\<open>date\<close> under the identifier \<^verbatim>\<open>date\<close>, so they keep this.
\<close>

definition dates_are_keys :: "world \<Rightarrow> bool" where
  "dates_are_keys w = list_all (\<lambda>entry. ad_date (snd entry) = Some (fst entry)) (calendar w)"

section \<open>Sample worlds\<close>

text \<open>An empty store, a clock that starts at 1000, and no failure.\<close>

definition world0 :: world where
  "world0 =
     \<lparr>calendar = [], bookings = [], clock = (\<lambda>n. 1000 + n), ticks = 0,
      faults = (\<lambda>n. None), calls = 0, entropy = (\<lambda>n. n), draws = 0\<rparr>"

text \<open>The first of June holds one booked slot.\<close>

definition booked_day :: world where
  "booked_day = world0\<lparr>calendar :=
     [(''2024-06-01'',
       \<lparr>ad_date = Some ''2024-06-01'', ad_isAvailable = Some True,
        ad_slots = Some [\<lparr>slot_time = ''10:00'', slot_isAvailable = False,
                          slot_bookedBy = Some ''a@x.com''\<rparr>],
        ad_updatedAt = Some 7\<rparr>)]\<rparr>"

text \<open>Three documents, stored out of order.\<close>

definition three_days :: world where
  "three_days = world0\<lparr>calendar :=
     [(''2024-06-03'', \<lparr>ad_date = Some ''2024-06-03'', ad_isAvailable = Some True,
                        ad_slots = Some [], ad_updatedAt = Some 3\<rparr>),
      (''2024-07-01'', \<lparr>ad_date = Some ''2024-07-01'', ad_isAvailable = Some True,
                        ad_slots = Some [], ad_updatedAt = Some 4\<rparr>),
      (''2024-06-01'', \<lparr>ad_date = Some ''2024-06-01'', ad_isAvailable = Some False,
                        ad_slots = Some [], ad_updatedAt = Some 5\<rparr>)]\<rparr>"

text \<open>A store that refuses every request, and one that refuses the second request only.\<close>

definition offline :: world where
  "offline = world0\<lparr>faults := (\<lambda>n. Some (FirebaseError ''unavailable''))\<rparr>"

definition flaky :: world where
  "flaky = world0\<lparr>faults := (\<lambda>n. if n = 1 then Some (FirebaseError ''unavailable'') else None)\<rparr>"

text \<open>The request of the example scenario.\<close>

definition request0 :: Booking where
  "request0 =
     \<lparr>b_id = None, b_serviceId = ''svc1'', b_serviceName = ''Cut'', b_date = ''2024-06-01'',
      b_time = ''10:00'', b_clientName = ''A'', b_clientEmail = ''a@x.com'',
      b_clientPhone = ''+1'', b_clientMessage = None, b_status = Pending\<rparr>"

section \<open>Facts about the store and the operations\<close>

lemmas store_defs = store_call_def Timestamp_now_def getDoc_calendar_def setDoc_calendar_def
  setDoc_merge_calendar_def updateDoc_calendar_def try_catch_def throw_def

lemmas sample_defs = world0_def booked_day_def request0_def offline_def flaky_def

lemma update_absent: "map_of al k = None \<Longrightarrow> AList.update k v al = al @ [(k, v)]"
  by (induction al) (auto split: if_splits)

lemma map_of_update: "map_of (AList.update k v al) k = Some v"
  by (simp add: update_conv')

lemma list_all_update:
  "list_all P al \<Longrightarrow> P (k, v) \<Longrightarrow> list_all P (AList.update k v al)"
  by (induction al) auto

subsection \<open>The four outcomes of \<^verbatim>\<open>bookTimeSlot\<close>\<close>

lemma bookTimeSlot_read_fails:
  assumes "faults w (calls w) = Some e"
  shows "bookTimeSlot date time clientEmail w = (Inl e, w\<lparr>calls := calls w + 1\<rparr>)"
  using assms by (simp add: bookTimeSlot_def store_defs)

lemma bookTimeSlot_write_fails:
  assumes "faults w (calls w) = None" and "faults w (calls w + 1) = Some e"
  shows "bookTimeSlot date time clientEmail w = (Inl e, w\<lparr>calls := calls w + 2, ticks := ticks w + 1\<rparr>)"
  using assms by (simp add: bookTimeSlot_def store_defs Let_def split: option.splits)

lemma bookTimeSlot_absent:
  assumes "map_of (calendar w) date = None"
    and "faults w (calls w) = None" and "faults w (calls w + 1) = None"
  shows "bookTimeSlot date time clientEmail w =
    (Inr (), w\<lparr>calls := calls w + 2, ticks := ticks w + 1,
       calendar := AList.update date
          \<lparr>ad_date = Some date, ad_isAvailable = Some True,
           ad_slots = Some [\<lparr>slot_time = time, slot_isAvailable = False,
                                    slot_bookedBy = Some clientEmail\<rparr>],
           ad_updatedAt = Some (clock w (ticks w))\<rparr> (calendar w)\<rparr>)"
  using assms by (simp add: bookTimeSlot_def store_defs)

lemma bookTimeSlot_present:
  assumes "map_of (calendar w) date = Some data"
    and "faults w (calls w) = None" and "faults w (calls w + 1) = None"
  shows "bookTimeSlot date time clientEmail w =
    (Inr (), w\<lparr>calls := calls w + 2, ticks := ticks w + 1,
       calendar := AList.update date
          \<lparr>ad_date = ad_date data, ad_isAvailable = ad_isAvailable data,
           ad_slots = Some (updated_slots time clientEmail
                     (case ad_slots data of None \<Rightarrow> [] | Some xs \<Rightarrow> xs)),
           ad_updatedAt = Some (clock w (ticks w))\<rparr> (calendar w)\<rparr>)"
  using assms by (simp add: bookTimeSlot_def store_defs Let_def merge_fields_def updated_slots_def)

lemma bookTimeSlot_bookings: "bookings (snd (bookTimeSlot date time c w)) = bookings w"
  by (simp add: bookTimeSlot_def store_defs Let_def split: option.splits)

lemma bookTimeSlot_ok_frame:
  assumes "faults w (calls w) = None" and "faults w (calls w + 1) = None"
  shows "fst (bookTimeSlot date time c w) = Inr ()"
    and "calls (snd (bookTimeSlot date time c w)) = calls w + 2"
    and "faults (snd (bookTimeSlot date time c w)) = faults w"
proof -
  show "fst (bookTimeSlot date time c w) = Inr ()"
    using assms
    by (cases "map_of (calendar w) date") (simp_all add: bookTimeSlot_absent bookTimeSlot_present)
  show "calls (snd (bookTimeSlot date time c w)) = calls w + 2"
    using assms
    by (cases "map_of (calendar w) date") (simp_all add: bookTimeSlot_absent bookTimeSlot_present)
  show "faults (snd (bookTimeSlot date time c w)) = faults w"
    using assms
    by (cases "map_of (calendar w) date") (simp_all add: bookTimeSlot_absent bookTimeSlot_present)
qed

lemma bookTimeSlot_fails_iff:
  "(\<exists>e. fst (bookTimeSlot date time c w) = Inl e) \<longleftrightarrow>
     faults w (calls w) \<noteq> None \<or> faults w (calls w + 1) \<noteq> None"
proof (cases "faults w (calls w)")
  case (Some e)
  then show ?thesis by (simp add: bookTimeSlot_read_fails)
next
  case None
  show ?thesis
  proof (cases "faults w (calls w + 1)")
    case (Some e)
    with None show ?thesis by (simp add: bookTimeSlot_write_fails)
  next
    case n2: None
    with None show ?thesis by (simp add: bookTimeSlot_ok_frame(1))
  qed
qed

lemma bookTimeSlot_fail_calendar:
  assumes "fst (bookTimeSlot date time c w) = Inl e"
  shows "calendar (snd (bookTimeSlot date time c w)) = calendar w"
proof (cases "faults w (calls w)")
  case (Some e')
  then show ?thesis by (simp add: bookTimeSlot_read_fails)
next
  case None
  with assms bookTimeSlot_fails_iff [of date time c w]
  obtain e' where "faults w (calls w + 1) = Some e'" by auto
  with None show ?thesis by (simp add: bookTimeSlot_write_fails)
qed

subsection \<open>The list of slots that is written\<close>

lemma find_None_time: "(find (\<lambda>s. slot_time s = time) xs = None) = (time \<notin> set (map slot_time xs))"
  by (auto simp: find_None_iff)

lemma book_slot_time [simp]: "slot_time (book_slot time c s) = slot_time s"
  by (simp add: book_slot_def)

lemma book_slot_other: "slot_time s \<noteq> time \<Longrightarrow> book_slot time c s = s"
  by (simp add: book_slot_def)

lemma book_slot_same:
  "slot_time s = time \<Longrightarrow>
     slot_bookedBy (book_slot time c s) = Some c \<and> \<not> slot_isAvailable (book_slot time c s)"
  by (simp add: book_slot_def)

lemma filter_other_map_book:
  "filter (\<lambda>s. slot_time s \<noteq> time) (map (book_slot time c) xs) = filter (\<lambda>s. slot_time s \<noteq> time) xs"
  by (induction xs) (auto simp: book_slot_other)

lemma updated_slots_others:
  "filter (\<lambda>s. slot_time s \<noteq> time) (updated_slots time c xs) = filter (\<lambda>s. slot_time s \<noteq> time) xs"
  by (simp add: updated_slots_def filter_other_map_book)

lemma length_filter_time:
  "length (filter (\<lambda>s. slot_time s = time) xs) = count_list (map slot_time xs) time"
  by (induction xs) auto

lemma updated_slots_times:
  "map slot_time (updated_slots time c xs) =
     (if time \<in> set (map slot_time xs) then map slot_time xs else map slot_time xs @ [time])"
  by (simp add: updated_slots_def find_None_time comp_def)

lemma count_list_distinct:
  "distinct ys \<Longrightarrow> count_list ys y = (if y \<in> set ys then 1 else 0)"
  by (induction ys) auto

lemma updated_slots_one:
  assumes "distinct (map slot_time xs)"
  shows "length (filter (\<lambda>s. slot_time s = time) (updated_slots time c xs)) = 1"
  using assms
  by (simp add: length_filter_time updated_slots_times count_list_distinct del: set_map)

lemma updated_slots_bound:
  assumes "s \<in> set (updated_slots time c xs)" and "slot_time s = time"
  shows "slot_bookedBy s = Some c \<and> \<not> slot_isAvailable s"
proof -
  from assms(1) consider s' where "s' \<in> set xs" "s = book_slot time c s'"
    | "s = \<lparr>slot_time = time, slot_isAvailable = False, slot_bookedBy = Some c\<rparr>"
    unfolding updated_slots_def by (cases "find (\<lambda>s. slot_time s = time) xs = None") auto
  then show ?thesis
  proof cases
    case 1
    with assms(2) have "slot_time s' = time" by simp
    with 1 show ?thesis by (simp add: book_slot_same)
  next
    case 2
    then show ?thesis by simp
  qed
qed

lemma updated_slots_has:
  "\<exists>s \<in> set (updated_slots time c xs). slot_time s = time"
proof (cases "time \<in> set (map slot_time xs)")
  case True
  then obtain s where "s \<in> set xs" "slot_time s = time" by auto
  then have "book_slot time c s \<in> set (updated_slots time c xs)" "slot_time (book_slot time c s) = time"
    by (auto simp: updated_slots_def)
  then show ?thesis by blast
next
  case False
  then show ?thesis by (simp add: updated_slots_def find_None_time del: set_map)
qed

lemma bookTimeSlot_binds:
  assumes "faults w (calls w) = None" and "faults w (calls w + 1) = None"
  shows "\<exists>data slots. map_of (calendar (snd (bookTimeSlot date time c w))) date = Some data \<and>
           ad_slots data = Some slots \<and>
           (\<exists>s \<in> set slots. slot_time s = time) \<and>
           (\<forall>s \<in> set slots. slot_time s = time \<longrightarrow>
              \<not> slot_isAvailable s \<and> slot_bookedBy s = Some c)"
proof (cases "map_of (calendar w) date")
  case None
  then show ?thesis using assms by (simp add: bookTimeSlot_absent update_conv')
next
  case (Some data)
  let ?xs = "case ad_slots data of None \<Rightarrow> [] | Some xs \<Rightarrow> xs"
  have "\<exists>s \<in> set (updated_slots time c ?xs). slot_time s = time"
    by (rule updated_slots_has)
  moreover have "\<forall>s \<in> set (updated_slots time c ?xs). slot_time s = time \<longrightarrow>
              \<not> slot_isAvailable s \<and> slot_bookedBy s = Some c"
    using updated_slots_bound by blast
  ultimately show ?thesis using assms Some
    by (simp add: bookTimeSlot_present update_conv')
qed

subsection \<open>The steps of \<^verbatim>\<open>createBooking\<close>\<close>

lemma autoId_length: "length (fst (autoId w)) = 20"
  by (simp add: autoId_def)

lemma cleanBooking_world: "snd (cleanBooking booking w) = w\<lparr>ticks := ticks w + 2\<rparr>"
  by (simp add: cleanBooking_def Timestamp_now_def)

lemma cleanBooking_fields:
  "bd_status (fst (cleanBooking booking w)) = b_status booking"
  "bd_createdAt (fst (cleanBooking booking w)) = clock w (ticks w)"
  "bd_updatedAt (fst (cleanBooking booking w)) = clock w (ticks w + 1)"
  by (simp_all add: cleanBooking_def Timestamp_now_def)

lemma addDoc_ok:
  assumes "faults w (calls w) = None"
  shows "addDoc_bookings (fst (cleanBooking booking w)) (snd (cleanBooking booking w)) =
         (Inr (fst (autoId w)), record_added booking w)"
  using assms
  by (simp add: addDoc_bookings_def autoId_def store_call_def cleanBooking_world record_added_def)

lemma addDoc_fails:
  assumes "faults w (calls w) = Some e"
  shows "fst (addDoc_bookings (fst (cleanBooking booking w)) (snd (cleanBooking booking w))) = Inl e"
    and "bookings (snd (addDoc_bookings (fst (cleanBooking booking w)) (snd (cleanBooking booking w)))) = bookings w"
    and "calendar (snd (addDoc_bookings (fst (cleanBooking booking w)) (snd (cleanBooking booking w)))) = calendar w"
  using assms
  by (simp_all add: addDoc_bookings_def autoId_def store_call_def cleanBooking_world)

lemma createBooking_unfold:
  "createBooking booking w =
     (case addDoc_bookings (fst (cleanBooking booking w)) (snd (cleanBooking booking w)) of
        (Inl e, w3) \<Rightarrow> (Inl (Error ''Booking failed. Please try again.''), w3)
      | (Inr docRef_id, w3) \<Rightarrow>
          (case bookTimeSlot (b_date booking) (b_time booking) (b_clientEmail booking) w3 of
             (Inl e, w4) \<Rightarrow> (Inl (Error ''Booking failed. Please try again.''), w4)
           | (Inr u, w4) \<Rightarrow> (Inr docRef_id, w4)))"
  by (simp add: createBooking_def try_catch_def throw_def split: prod.splits sum.splits)

lemma createBooking_added:
  assumes "faults w (calls w) = None"
  shows "createBooking booking w =
     (case bookTimeSlot (b_date booking) (b_time booking) (b_clientEmail booking)
             (record_added booking w) of
        (Inl e, w4) \<Rightarrow> (Inl (Error ''Booking failed. Please try again.''), w4)
      | (Inr u, w4) \<Rightarrow> (Inr (fst (autoId w)), w4))"
  by (simp add: createBooking_unfold addDoc_ok [OF assms])

lemma createBooking_add_fails:
  assumes "faults w (calls w) = Some e"
  shows "fst (createBooking booking w) = Inl (Error ''Booking failed. Please try again.'')"
proof -
  obtain r w3 where a:
    "addDoc_bookings (fst (cleanBooking booking w)) (snd (cleanBooking booking w)) = (r, w3)"
    by (cases "addDoc_bookings (fst (cleanBooking booking w)) (snd (cleanBooking booking w))")
  with addDoc_fails(1) [OF assms, of booking] have "r = Inl e" by simp
  with a show ?thesis by (simp add: createBooking_unfold)
qed

lemma createBooking_slot_fails:
  assumes "faults w (calls w) = None"
    and "faults w (calls w + 1) \<noteq> None \<or> faults w (calls w + 2) \<noteq> None"
  shows "fst (createBooking booking w) = Inl (Error ''Booking failed. Please try again.'')"
proof -
  let ?w3 = "record_added booking w"
  let ?r = "bookTimeSlot (b_date booking) (b_time booking) (b_clientEmail booking) ?w3"
  from assms(2) have "faults ?w3 (calls ?w3) \<noteq> None \<or> faults ?w3 (calls ?w3 + 1) \<noteq> None"
    by (simp add: record_added_def)
  then obtain e where "fst ?r = Inl e" using bookTimeSlot_fails_iff by blast
  then show ?thesis by (cases ?r) (simp add: createBooking_added [OF assms(1)])
qed

lemma createBooking_succeeds:
  assumes "faults w (calls w) = None" "faults w (calls w + 1) = None" "faults w (calls w + 2) = None"
  shows "fst (createBooking booking w) = Inr (fst (autoId w))"
proof -
  let ?w3 = "record_added booking w"
  have "faults ?w3 (calls ?w3) = None" "faults ?w3 (calls ?w3 + 1) = None"
    using assms by (simp_all add: record_added_def)
  from bookTimeSlot_ok_frame(1) [OF this]
  have "fst (bookTimeSlot (b_date booking) (b_time booking) (b_clientEmail booking) ?w3) = Inr ()" .
  then show ?thesis
    by (cases "bookTimeSlot (b_date booking) (b_time booking) (b_clientEmail booking) ?w3")
       (simp add: createBooking_added [OF assms(1)])
qed

subsection \<open>Operations that send one request, and the batch\<close>

lemma setDateAvailability_outcome:
  "fst (setDateAvailability date a s w) = (case faults w (calls w) of Some e \<Rightarrow> Inl e | None \<Rightarrow> Inr ())"
  "calls (snd (setDateAvailability date a s w)) = calls w + 1"
  "faults (snd (setDateAvailability date a s w)) = faults w"
  by (simp_all add: setDateAvailability_def store_defs Let_def split: option.splits)

lemma single_request_raises:
  assumes "faults w (calls w) = Some e"
  shows "getDateAvailability date w = (Inl e, w\<lparr>calls := calls w + 1\<rparr>)"
    and "getAvailabilityRange startDate endDate w = (Inl e, w\<lparr>calls := calls w + 1\<rparr>)"
    and "getAllBookings w = (Inl e, w\<lparr>calls := calls w + 1\<rparr>)"
    and "setDateAvailability date a s w = (Inl e, w\<lparr>ticks := ticks w + 1, calls := calls w + 1\<rparr>)"
    and "updateBookingStatus bookingId st w = (Inl e, w\<lparr>ticks := ticks w + 1, calls := calls w + 1\<rparr>)"
  using assms
  by (simp_all add: getDateAvailability_def getAvailabilityRange_def getDocs_calendar_range_def
      getAllBookings_def getDocs_bookings_def setDateAvailability_def updateBookingStatus_def
      updateDoc_bookings_def store_defs)

lemma updateBookingStatus_not_found:
  assumes "faults w (calls w) = None" and "map_of (bookings w) bookingId = None"
  shows "fst (updateBookingStatus bookingId st w) = Inl (FirebaseError ''not-found'')"
  using assms by (simp add: updateBookingStatus_def updateDoc_bookings_def store_defs)

lemma start_all_Cons_fst:
  "fst (start_all (p # ps) w) = fst (p w) # fst (start_all ps (snd (p w)))"
  by (simp split: prod.splits)

lemma start_all_raises:
  assumes "\<exists>i<length dates. faults w (calls w + i) \<noteq> None"
  shows "\<exists>i<length dates. \<exists>e. faults w (calls w + i) = Some e \<and>
           Promise_all (fst (start_all (map (\<lambda>date. setDateAvailability date a None) dates) w)) = Inl e"
  using assms
proof (induction dates arbitrary: w)
  case Nil
  then show ?case by simp
next
  case (Cons d ds)
  let ?p = "setDateAvailability d a None w"
  let ?rest = "start_all (map (\<lambda>date. setDateAvailability date a None) ds) (snd ?p)"
  have unfold: "fst (start_all (map (\<lambda>date. setDateAvailability date a None) (d # ds)) w) =
      fst ?p # fst ?rest"
    by (simp add: start_all_Cons_fst del: start_all.simps)
  show ?case
  proof (cases "faults w (calls w)")
    case (Some e)
    then have "fst ?p = Inl e" by (simp add: setDateAvailability_outcome)
    with Some have "faults w (calls w + 0) = Some e \<and>
       Promise_all (fst (start_all (map (\<lambda>date. setDateAvailability date a None) (d # ds)) w)) = Inl e"
      by (simp only: unfold) simp
    then show ?thesis by (intro exI [of _ 0]) auto
  next
    case None
    then have p: "fst ?p = Inr ()" by (simp add: setDateAvailability_outcome)
    from Cons.prems obtain i where i: "i < length (d # ds)" "faults w (calls w + i) \<noteq> None" by blast
    with None obtain j where j: "i = Suc j" by (cases i) auto
    with i have "\<exists>j<length ds. faults (snd ?p) (calls (snd ?p) + j) \<noteq> None"
      by (auto simp: setDateAvailability_outcome)
    from Cons.IH [OF this] obtain k e where k: "k < length ds"
      "faults (snd ?p) (calls (snd ?p) + k) = Some e" "Promise_all (fst ?rest) = Inl e"
      by blast
    from k(2) have "faults w (calls w + Suc k) = Some e" by (simp add: setDateAvailability_outcome)
    moreover have "Promise_all (fst (start_all (map (\<lambda>date. setDateAvailability date a None) (d # ds)) w)) = Inl e"
      using p k(3) by (simp only: unfold) simp
    ultimately show ?thesis using k(1) by (intro exI [of _ "Suc k"]) auto
  qed
qed

lemma setBatchAvailability_fst:
  "fst (setBatchAvailability dates a w) =
     (case Promise_all (fst (start_all (map (\<lambda>date. setDateAvailability date a None) dates) w)) of
        Inl e \<Rightarrow> Inl e | Inr vs \<Rightarrow> Inr ())"
  by (simp add: setBatchAvailability_def try_catch_def throw_def split: prod.splits sum.splits)

lemma setBatchAvailability_raises:
  assumes "\<exists>i<length dates. faults w (calls w + i) \<noteq> None"
  shows "\<exists>i<length dates. \<exists>e. faults w (calls w + i) = Some e \<and>
           fst (setBatchAvailability dates a w) = Inl e"
  using start_all_raises [OF assms, of a] by (auto simp: setBatchAvailability_fst)

lemma setDateAvailability_writes:
  assumes "faults w (calls w) = None"
  shows "\<exists>data. map_of (calendar (snd (setDateAvailability date a slots_arg w))) date = Some data \<and>
           ad_date data = Some date \<and> ad_isAvailable data = Some a \<and>
           ad_slots data = Some (case slots_arg of None \<Rightarrow> [] | Some xs \<Rightarrow> xs) \<and>
           ad_updatedAt data = Some (clock w (ticks w))"
  using assms
  by (simp add: setDateAvailability_def store_defs Let_def merge_fields_def update_conv'
      split: option.splits)

subsection \<open>The range query\<close>

lemma sorted_query_order:
  assumes "sorted (map query_order l)"
  shows "sorted (map date_of (map snd l))"
proof -
  from assms have "sorted_wrt (\<lambda>x y. query_order x \<le> query_order y) l"
    by (simp add: sorted_map)
  then have "sorted_wrt (\<lambda>x y. date_of (snd x) \<le> date_of (snd y)) l"
    by (rule sorted_wrt_mono_rel [rotated]) (auto simp: query_order_def less_eq_prod_def)
  then show ?thesis by (simp add: sorted_map sorted_wrt_map)
qed

lemma date_in_range_iff:
  "date_in_range startDate endDate data \<longleftrightarrow>
     (\<exists>d. ad_date data = Some d \<and> startDate \<le> d \<and> d \<le> endDate)"
  by (simp add: date_in_range_def split: option.splits)

lemma three_days_june:
  "fst (getAvailabilityRange ''2024-06-01'' ''2024-06-30'' three_days) =
     Inr [\<lparr>ad_date = Some ''2024-06-01'', ad_isAvailable = Some False,
                        ad_slots = Some [], ad_updatedAt = Some 5\<rparr>,
          \<lparr>ad_date = Some ''2024-06-03'', ad_isAvailable = Some True,
                        ad_slots = Some [], ad_updatedAt = Some 3\<rparr>]"
  by (simp add: getAvailabilityRange_def getDocs_calendar_range_def store_defs three_days_def world0_def
      date_in_range_def query_order_def date_of_def less_eq_prod_def)

subsection \<open>The service keeps the \<^verbatim>\<open>date\<close> field equal to the identifier\<close>

lemma setDateAvailability_keeps_keys:
  assumes "dates_are_keys w"
  shows "dates_are_keys (snd (setDateAvailability date a s w))"
proof (cases "faults w (calls w)")
  case (Some e)
  with assms show ?thesis by (simp add: single_request_raises dates_are_keys_def)
next
  case None
  with assms show ?thesis
    by (auto simp: setDateAvailability_def store_defs Let_def dates_are_keys_def merge_fields_def
        intro!: list_all_update split: option.splits)
qed

lemma bookTimeSlot_keeps_keys:
  assumes "dates_are_keys w"
  shows "dates_are_keys (snd (bookTimeSlot date time c w))"
proof (cases "faults w (calls w)")
  case (Some e)
  with assms show ?thesis by (simp add: bookTimeSlot_read_fails dates_are_keys_def)
next
  case None
  show ?thesis
  proof (cases "faults w (calls w + 1)")
    case (Some e)
    with None assms show ?thesis by (simp add: bookTimeSlot_write_fails dates_are_keys_def)
  next
    case n2: None
    show ?thesis
    proof (cases "map_of (calendar w) date")
      case n3: None
      with None n2 assms show ?thesis
        by (simp add: bookTimeSlot_absent dates_are_keys_def list_all_update)
    next
      case (Some data)
      then have "(date, data) \<in> set (calendar w)" by (rule map_of_SomeD)
      with assms have "ad_date data = Some date"
        by (auto simp: dates_are_keys_def list_all_iff)
      with None n2 Some assms show ?thesis
        by (simp add: bookTimeSlot_present dates_are_keys_def list_all_update)
    qed
  qed
qed

section \<open>The claims\<close>

text \<open>
  C1. The claim: on a date whose stored document has a non-empty \<open>slots\<close> list,
  \<^verbatim>\<open>setDateAvailability(date, flag)\<close> without a \<open>slots\<close> argument leaves the stored list as it
  was. The code at such an input: the document for 2024-06-01 holds the slot 10:00 booked by
  a@x.com; after \<^verbatim>\<open>setDateAvailability("2024-06-01", false)\<close> the write has succeeded and the
  stored list is empty, because the default \<^verbatim>\<open>slots = []\<close> is part of the merged object
  (\<open>setDateAvailability_writes\<close> is the general fact).
\<close>

theorem setDateAvailability_default_erases_slots:
  "fst (setDateAvailability ''2024-06-01'' False None booked_day) = Inr () \<and>
   map_of (calendar booked_day) ''2024-06-01'' \<noteq> None \<and>
   Option.bind (map_of (calendar booked_day) ''2024-06-01'') ad_slots
     = Some [\<lparr>slot_time = ''10:00'', slot_isAvailable = False, slot_bookedBy = Some ''a@x.com''\<rparr>] \<and>
   Option.bind (map_of (calendar (snd (setDateAvailability ''2024-06-01'' False None booked_day)))
      ''2024-06-01'') ad_slots = Some []"
  by (simp add: setDateAvailability_def try_catch_def throw_def Timestamp_now_def
      setDoc_merge_calendar_def store_call_def merge_fields_def booked_day_def world0_def)

text \<open>
  C2, as the code has it. When the request that adds the record succeeds, the record that
  \<^verbatim>\<open>createBooking\<close> leaves in the \<^verbatim>\<open>bookings\<close> collection, under the identifier drawn for
  it, has the status of the input (so \<^verbatim>\<open>pending\<close> when the caller passes \<^verbatim>\<open>pending\<close>, as
  the submission form does), \<^verbatim>\<open>createdAt\<close> equal to the reading of the clock taken when
  the record is built and \<^verbatim>\<open>updatedAt\<close> equal to the next reading.
\<close>

theorem createBooking_written_record:
  assumes "faults w (calls w) = None"
  shows "\<exists>data.
           map_of (bookings (snd (createBooking booking w))) (fst (autoId w)) = Some data \<and>
           bookings (snd (createBooking booking w)) =
             AList.update (fst (autoId w)) data (bookings w) \<and>
           bd_status data = b_status booking \<and>
           bd_createdAt data = clock w (ticks w) \<and>
           bd_updatedAt data = clock w (ticks w + 1)"
proof -
  have "bookings (snd (createBooking booking w)) =
        bookings (snd (bookTimeSlot (b_date booking) (b_time booking) (b_clientEmail booking)
             (record_added booking w)))"
    by (simp add: createBooking_added [OF assms] split: prod.splits sum.splits)
  also have "\<dots> = bookings (record_added booking w)"
    by (rule bookTimeSlot_bookings)
  finally have "bookings (snd (createBooking booking w)) =
      AList.update (fst (autoId w)) (fst (cleanBooking booking w)) (bookings w)"
    by (simp add: record_added_def)
  then show ?thesis
    by (intro exI [of _ "fst (cleanBooking booking w)"]) (simp add: update_conv' cleanBooking_fields)
qed

theorem createBooking_written_record_witness:
  "faults world0 (calls world0) = None \<and>
   (\<exists>data.
      map_of (bookings (snd (createBooking request0 world0))) ''ABCDEFGHIJKLMNOPQRST'' = Some data \<and>
      bookings (snd (createBooking request0 world0)) = [(''ABCDEFGHIJKLMNOPQRST'', data)] \<and>
      bd_status data = Pending \<and> bd_createdAt data = 1000 \<and> bd_updatedAt data = 1001)"
proof -
  have h: "faults world0 (calls world0) = None" by (simp add: world0_def)
  have i: "fst (autoId world0) = ''ABCDEFGHIJKLMNOPQRST''"
    by (simp add: autoId_def alphabet_def world0_def upt_rec)
  from createBooking_written_record [OF h, of request0] h show ?thesis
    unfolding i by (simp add: world0_def request0_def)
qed

text \<open>
  The claim says the status is \<^verbatim>\<open>pending\<close> whatever the input holds. The example request
  with status \<^verbatim>\<open>confirmed\<close> is stored as \<^verbatim>\<open>confirmed\<close>.
\<close>

theorem createBooking_status_counterexample:
  "b_status (request0\<lparr>b_status := Confirmed\<rparr>) = Confirmed \<and>
   fst (createBooking (request0\<lparr>b_status := Confirmed\<rparr>) world0) = Inr ''ABCDEFGHIJKLMNOPQRST'' \<and>
   map_option bd_status
     (map_of (bookings (snd (createBooking (request0\<lparr>b_status := Confirmed\<rparr>) world0)))
        ''ABCDEFGHIJKLMNOPQRST'') = Some Confirmed \<and>
   Confirmed \<noteq> Pending"
  by (simp add: createBooking_def try_catch_def throw_def cleanBooking_def Timestamp_now_def
     addDoc_bookings_def autoId_def alphabet_def store_call_def bookTimeSlot_def getDoc_calendar_def
     setDoc_calendar_def sample_defs upt_rec)

text \<open>
  C3, as the code has it. When the first request of an operation fails with \<open>e\<close>,
  \<^verbatim>\<open>setDateAvailability\<close>, \<^verbatim>\<open>getDateAvailability\<close>, \<^verbatim>\<open>getAvailabilityRange\<close>, \<^verbatim>\<open>bookTimeSlot\<close>,
  \<^verbatim>\<open>getAllBookings\<close> and \<^verbatim>\<open>updateBookingStatus\<close> raise \<open>e\<close> itself and have sent that
  one request only; so does \<^verbatim>\<open>bookTimeSlot\<close> when its second request fails, and
  \<^verbatim>\<open>updateBookingStatus\<close> with the store's \<^verbatim>\<open>not-found\<close> for a missing booking.
  \<^verbatim>\<open>createBooking\<close> is the exception: whichever of its three requests fails, it raises
  the fixed \<^verbatim>\<open>Error('Booking failed. Please try again.')\<close>. \<^verbatim>\<open>setBatchAvailability\<close> raises,
  unchanged, the error of one of its writes that failed.
\<close>

theorem store_errors_reach_caller:
  "(faults w (calls w) = Some e \<longrightarrow>
      setDateAvailability date a slots w = (Inl e, w\<lparr>ticks := ticks w + 1, calls := calls w + 1\<rparr>) \<and>
      getDateAvailability date w = (Inl e, w\<lparr>calls := calls w + 1\<rparr>) \<and>
      getAvailabilityRange startDate endDate w = (Inl e, w\<lparr>calls := calls w + 1\<rparr>) \<and>
      bookTimeSlot date time client w = (Inl e, w\<lparr>calls := calls w + 1\<rparr>) \<and>
      getAllBookings w = (Inl e, w\<lparr>calls := calls w + 1\<rparr>) \<and>
      updateBookingStatus bookingId st w = (Inl e, w\<lparr>ticks := ticks w + 1, calls := calls w + 1\<rparr>) \<and>
      fst (createBooking booking w) = Inl (Error ''Booking failed. Please try again.'')) \<and>
   (faults w (calls w) = None \<and> faults w (calls w + 1) = Some e \<longrightarrow>
      bookTimeSlot date time client w = (Inl e, w\<lparr>calls := calls w + 2, ticks := ticks w + 1\<rparr>)) \<and>
   (faults w (calls w) = None \<and> map_of (bookings w) bookingId = None \<longrightarrow>
      fst (updateBookingStatus bookingId st w) = Inl (FirebaseError ''not-found'')) \<and>
   (faults w (calls w) = None \<and>
      (faults w (calls w + 1) \<noteq> None \<or> faults w (calls w + 2) \<noteq> None) \<longrightarrow>
      fst (createBooking booking w) = Inl (Error ''Booking failed. Please try again.'')) \<and>
   ((\<exists>i<length dates. faults w (calls w + i) \<noteq> None) \<longrightarrow>
      (\<exists>i<length dates. \<exists>e'. faults w (calls w + i) = Some e' \<and>
          fst (setBatchAvailability dates a w) = Inl e'))"
proof (intro conjI impI)
  assume f: "faults w (calls w) = Some e"
  show "setDateAvailability date a slots w = (Inl e, w\<lparr>ticks := ticks w + 1, calls := calls w + 1\<rparr>)"
    using f by (rule single_request_raises)
  show "getDateAvailability date w = (Inl e, w\<lparr>calls := calls w + 1\<rparr>)"
    using f by (rule single_request_raises)
  show "getAvailabilityRange startDate endDate w = (Inl e, w\<lparr>calls := calls w + 1\<rparr>)"
    using f by (rule single_request_raises)
  show "bookTimeSlot date time client w = (Inl e, w\<lparr>calls := calls w + 1\<rparr>)"
    using f by (rule bookTimeSlot_read_fails)
  show "getAllBookings w = (Inl e, w\<lparr>calls := calls w + 1\<rparr>)"
    using f by (rule single_request_raises)
  show "updateBookingStatus bookingId st w = (Inl e, w\<lparr>ticks := ticks w + 1, calls := calls w + 1\<rparr>)"
    using f by (rule single_request_raises)
  show "fst (createBooking booking w) = Inl (Error ''Booking failed. Please try again.'')"
    using f by (rule createBooking_add_fails)
next
  assume "faults w (calls w) = None \<and> faults w (calls w + 1) = Some e"
  then show "bookTimeSlot date time client w = (Inl e, w\<lparr>calls := calls w + 2, ticks := ticks w + 1\<rparr>)"
    by (simp add: bookTimeSlot_write_fails)
next
  assume "faults w (calls w) = None \<and> map_of (bookings w) bookingId = None"
  then show "fst (updateBookingStatus bookingId st w) = Inl (FirebaseError ''not-found'')"
    by (simp add: updateBookingStatus_not_found)
next
  assume "faults w (calls w) = None \<and>
      (faults w (calls w + 1) \<noteq> None \<or> faults w (calls w + 2) \<noteq> None)"
  then show "fst (createBooking booking w) = Inl (Error ''Booking failed. Please try again.'')"
    using createBooking_slot_fails by blast
next
  assume "\<exists>i<length dates. faults w (calls w + i) \<noteq> None"
  then show "\<exists>i<length dates. \<exists>e'. faults w (calls w + i) = Some e' \<and>
          fst (setBatchAvailability dates a w) = Inl e'"
    by (rule setBatchAvailability_raises)
qed

theorem store_errors_reach_caller_witness:
  "faults offline (calls offline) = Some (FirebaseError ''unavailable'') \<and>
   fst (setDateAvailability ''2024-06-01'' False None offline) = Inl (FirebaseError ''unavailable'') \<and>
   fst (getDateAvailability ''2024-06-01'' offline) = Inl (FirebaseError ''unavailable'') \<and>
   fst (getAvailabilityRange ''2024-06-01'' ''2024-06-30'' offline) = Inl (FirebaseError ''unavailable'') \<and>
   fst (bookTimeSlot ''2024-06-01'' ''10:00'' ''a@x.com'' offline) = Inl (FirebaseError ''unavailable'') \<and>
   fst (getAllBookings offline) = Inl (FirebaseError ''unavailable'') \<and>
   fst (updateBookingStatus ''ABCDEFGHIJKLMNOPQRST'' Confirmed offline) = Inl (FirebaseError ''unavailable'') \<and>
   fst (createBooking request0 offline) = Inl (Error ''Booking failed. Please try again.'') \<and>
   (\<exists>i<length [''2024-06-01'', ''2024-06-02'']. \<exists>e'.
       faults offline (calls offline + i) = Some e' \<and>
       fst (setBatchAvailability [''2024-06-01'', ''2024-06-02''] False offline) = Inl e') \<and>
   faults flaky (calls flaky) = None \<and> faults flaky (calls flaky + 1) = Some (FirebaseError ''unavailable'') \<and>
   fst (bookTimeSlot ''2024-06-01'' ''10:00'' ''a@x.com'' flaky) = Inl (FirebaseError ''unavailable'') \<and>
   fst (createBooking request0 flaky) = Inl (Error ''Booking failed. Please try again.'') \<and>
   faults world0 (calls world0) = None \<and> map_of (bookings world0) ''ABCDEFGHIJKLMNOPQRST'' = None \<and>
   fst (updateBookingStatus ''ABCDEFGHIJKLMNOPQRST'' Confirmed world0) = Inl (FirebaseError ''not-found'')"
proof -
  have off1: "faults offline (calls offline) = Some (FirebaseError ''unavailable'')"
    by (simp add: offline_def world0_def)
  have off2: "\<exists>i<length [''2024-06-01'', ''2024-06-02'']. faults offline (calls offline + i) \<noteq> None"
    by (intro exI [of _ 0]) (simp add: offline_def world0_def)
  note off = off1 off2
  have fl: "faults flaky (calls flaky) = None"
    "faults flaky (calls flaky + 1) = Some (FirebaseError ''unavailable'')"
    by (simp_all add: flaky_def world0_def)
  have w0: "faults world0 (calls world0) = None"
    "map_of (bookings world0) ''ABCDEFGHIJKLMNOPQRST'' = None"
    by (simp_all add: world0_def)
  note a = store_errors_reach_caller [of offline "FirebaseError ''unavailable''" "''2024-06-01''"
      False None "''2024-06-01''" "''2024-06-30''" "''10:00''" "''a@x.com''"
      "''ABCDEFGHIJKLMNOPQRST''" Confirmed request0 "[''2024-06-01'', ''2024-06-02'']"]
  note b = store_errors_reach_caller [of flaky "FirebaseError ''unavailable''" "''2024-06-01''"
      False None "''2024-06-01''" "''2024-06-30''" "''10:00''" "''a@x.com''"
      "''ABCDEFGHIJKLMNOPQRST''" Confirmed request0 "[]"]
  note c = store_errors_reach_caller [of world0 "FirebaseError ''unavailable''" "''2024-06-01''"
      False None "''2024-06-01''" "''2024-06-30''" "''10:00''" "''a@x.com''"
      "''ABCDEFGHIJKLMNOPQRST''" Confirmed request0 "[]"]
  from a off have 1: "fst (setDateAvailability ''2024-06-01'' False None offline) = Inl (FirebaseError ''unavailable'')"
    "fst (getDateAvailability ''2024-06-01'' offline) = Inl (FirebaseError ''unavailable'')"
    "fst (getAvailabilityRange ''2024-06-01'' ''2024-06-30'' offline) = Inl (FirebaseError ''unavailable'')"
    "fst (bookTimeSlot ''2024-06-01'' ''10:00'' ''a@x.com'' offline) = Inl (FirebaseError ''unavailable'')"
    "fst (getAllBookings offline) = Inl (FirebaseError ''unavailable'')"
    "fst (updateBookingStatus ''ABCDEFGHIJKLMNOPQRST'' Confirmed offline) = Inl (FirebaseError ''unavailable'')"
    "fst (createBooking request0 offline) = Inl (Error ''Booking failed. Please try again.'')"
    by simp_all
  from a off(2) have 2: "\<exists>i<length [''2024-06-01'', ''2024-06-02'']. \<exists>e'.
       faults offline (calls offline + i) = Some e' \<and>
       fst (setBatchAvailability [''2024-06-01'', ''2024-06-02''] False offline) = Inl e'"
    by blast
  from b fl have 3: "fst (bookTimeSlot ''2024-06-01'' ''10:00'' ''a@x.com'' flaky) = Inl (FirebaseError ''unavailable'')"
    "fst (createBooking request0 flaky) = Inl (Error ''Booking failed. Please try again.'')"
    by simp_all
  from c w0 have 4: "fst (updateBookingStatus ''ABCDEFGHIJKLMNOPQRST'' Confirmed world0) = Inl (FirebaseError ''not-found'')"
    by blast
  from off(1) fl w0 1 2 3 4 show ?thesis by blast
qed

text \<open>
  The claim says every operation raises the store's error unchanged. With the store
  refusing every request, the store call of \<^verbatim>\<open>createBooking\<close> raises \<^verbatim>\<open>unavailable\<close> and
  \<^verbatim>\<open>createBooking\<close> raises another error.
\<close>

theorem createBooking_replaces_error:
  "faults offline (calls offline) = Some (FirebaseError ''unavailable'') \<and>
   fst (addDoc_bookings (fst (cleanBooking request0 offline)) (snd (cleanBooking request0 offline)))
     = Inl (FirebaseError ''unavailable'') \<and>
   fst (createBooking request0 offline) = Inl (Error ''Booking failed. Please try again.'') \<and>
   fst (createBooking request0 offline) \<noteq> Inl (FirebaseError ''unavailable'')"
  by (simp add: createBooking_def try_catch_def throw_def cleanBooking_def Timestamp_now_def
     addDoc_bookings_def autoId_def store_call_def sample_defs)

text \<open>
  C4. A call of \<^verbatim>\<open>createBooking\<close> that returns an identifier returns a non-empty one, and
  in the world it leaves the calendar document of the booking's date has a slot with the
  booking's time that is not available and is booked by the client's email.
  (\<open>createBooking_succeeds\<close>: the call does return when no request fails.)
\<close>

theorem createBooking_success:
  assumes "createBooking booking w = (Inr bid, w')"
  shows "bid \<noteq> [] \<and>
         (\<exists>data slots. map_of (calendar w') (b_date booking) = Some data \<and>
            ad_slots data = Some slots \<and>
            (\<exists>s \<in> set slots. slot_time s = b_time booking \<and> \<not> slot_isAvailable s \<and>
                 slot_bookedBy s = Some (b_clientEmail booking)))"
proof -
  let ?book = "\<lambda>v. bookTimeSlot (b_date booking) (b_time booking) (b_clientEmail booking) v"
  have added: "faults w (calls w) = None"
  proof (cases "faults w (calls w)")
    case (Some e)
    from createBooking_add_fails [OF Some, of booking] assms show ?thesis by simp
  qed simp
  let ?w3 = "record_added booking w"
  obtain r w4 where b: "?book ?w3 = (r, w4)" by (cases "?book ?w3")
  from assms b have r: "r = Inr ()" and bid: "bid = fst (autoId w)" and w': "w' = w4"
    by (auto simp: createBooking_added [OF added] split: sum.splits)
  from b r have "\<not> (\<exists>e. fst (?book ?w3) = Inl e)" by simp
  then have ok: "faults ?w3 (calls ?w3) = None" "faults ?w3 (calls ?w3 + 1) = None"
    by (simp_all add: bookTimeSlot_fails_iff)
  from bookTimeSlot_binds [OF ok, of "b_date booking" "b_time booking" "b_clientEmail booking"] b w'
  have "\<exists>data slots. map_of (calendar w') (b_date booking) = Some data \<and>
            ad_slots data = Some slots \<and>
            (\<exists>s \<in> set slots. slot_time s = b_time booking \<and> \<not> slot_isAvailable s \<and>
                 slot_bookedBy s = Some (b_clientEmail booking))"
    by auto
  moreover have "bid \<noteq> []" using autoId_length [of w] bid by auto
  ultimately show ?thesis by simp
qed

theorem createBooking_success_witness:
  "createBooking request0 world0 =
     (Inr ''ABCDEFGHIJKLMNOPQRST'', snd (createBooking request0 world0)) \<and>
   ''ABCDEFGHIJKLMNOPQRST'' \<noteq> [] \<and>
   (\<exists>data slots. map_of (calendar (snd (createBooking request0 world0))) ''2024-06-01'' = Some data \<and>
      ad_slots data = Some slots \<and>
      (\<exists>s \<in> set slots. slot_time s = ''10:00'' \<and> \<not> slot_isAvailable s \<and>
          slot_bookedBy s = Some ''a@x.com''))"
proof -
  have "fst (createBooking request0 world0) = Inr ''ABCDEFGHIJKLMNOPQRST''"
    by (simp add: createBooking_succeeds autoId_def alphabet_def world0_def upt_rec)
  then have h: "createBooking request0 world0 =
     (Inr ''ABCDEFGHIJKLMNOPQRST'', snd (createBooking request0 world0))"
    by (metis prod.collapse)
  from createBooking_success [OF h] h show ?thesis by (simp add: request0_def)
qed

text \<open>
  C5. On a date with no stored document, when neither request fails, \<^verbatim>\<open>bookTimeSlot\<close>
  returns and the calendar is the old one with one more document, under that date, whose
  \<open>slots\<close> list is the single slot with the given time, not available, booked by the given
  client.
\<close>

theorem bookTimeSlot_creates_document:
  assumes "map_of (calendar w) date = None"
    and "faults w (calls w) = None" and "faults w (calls w + 1) = None"
  shows "fst (bookTimeSlot date time client w) = Inr () \<and>
         calendar (snd (bookTimeSlot date time client w)) =
           calendar w @
             [(date, \<lparr>ad_date = Some date, ad_isAvailable = Some True,
                      ad_slots = Some [\<lparr>slot_time = time, slot_isAvailable = False,
                                        slot_bookedBy = Some client\<rparr>],
                      ad_updatedAt = Some (clock w (ticks w))\<rparr>)]"
  using assms by (simp add: bookTimeSlot_absent update_absent)

theorem bookTimeSlot_creates_document_witness:
  "map_of (calendar booked_day) ''2024-06-02'' = None \<and>
   faults booked_day (calls booked_day) = None \<and> faults booked_day (calls booked_day + 1) = None \<and>
   fst (bookTimeSlot ''2024-06-02'' ''09:00'' ''b@y.org'' booked_day) = Inr () \<and>
   calendar (snd (bookTimeSlot ''2024-06-02'' ''09:00'' ''b@y.org'' booked_day)) =
     calendar booked_day @
       [(''2024-06-02'', \<lparr>ad_date = Some ''2024-06-02'', ad_isAvailable = Some True,
                      ad_slots = Some [\<lparr>slot_time = ''09:00'', slot_isAvailable = False,
                                        slot_bookedBy = Some ''b@y.org''\<rparr>],
                      ad_updatedAt = Some 1000\<rparr>)]"
proof -
  have h: "map_of (calendar booked_day) ''2024-06-02'' = None"
    "faults booked_day (calls booked_day) = None" "faults booked_day (calls booked_day + 1) = None"
    by (simp_all add: sample_defs)
  from bookTimeSlot_creates_document [OF h, of "''09:00''" "''b@y.org''"] h
  show ?thesis by (simp add: sample_defs)
qed

text \<open>
  C6. Two calls of \<^verbatim>\<open>bookTimeSlot\<close> in sequence for the same date and time, for
  \<open>client1\<close> and then \<open>client2\<close>, with no request failing: both return without an
  error, and afterwards the document of the date has a slot with that time, and every slot
  with that time is booked by \<open>client2\<close> and not available. Nothing in the statement asks
  the clients to differ, so it holds for two different clients.
\<close>

theorem bookTimeSlot_last_write_wins:
  assumes "faults w (calls w) = None" and "faults w (calls w + 1) = None"
    and "faults w (calls w + 2) = None" and "faults w (calls w + 3) = None"
  shows "fst (bookTimeSlot date time client1 w) = Inr () \<and>
         fst (bookTimeSlot date time client2 (snd (bookTimeSlot date time client1 w))) = Inr () \<and>
         (\<exists>data slots.
            map_of (calendar (snd (bookTimeSlot date time client2
                                     (snd (bookTimeSlot date time client1 w))))) date = Some data \<and>
            ad_slots data = Some slots \<and>
            (\<exists>s \<in> set slots. slot_time s = time) \<and>
            (\<forall>s \<in> set slots. slot_time s = time \<longrightarrow>
               slot_bookedBy s = Some client2 \<and> \<not> slot_isAvailable s))"
proof -
  let ?w1 = "snd (bookTimeSlot date time client1 w)"
  note first = bookTimeSlot_ok_frame [OF assms(1,2), of date time client1]
  have ok: "faults ?w1 (calls ?w1) = None" "faults ?w1 (calls ?w1 + 1) = None"
    using assms(3,4) by (simp_all add: first(2,3) numeral_3_eq_3)
  from bookTimeSlot_binds [OF ok, of date time client2] bookTimeSlot_ok_frame(1) [OF ok] first(1)
  show ?thesis by auto
qed

theorem bookTimeSlot_last_write_wins_witness:
  "faults world0 (calls world0) = None \<and> faults world0 (calls world0 + 1) = None \<and>
   faults world0 (calls world0 + 2) = None \<and> faults world0 (calls world0 + 3) = None \<and>
   ''a@x.com'' \<noteq> ''b@y.org'' \<and>
   fst (bookTimeSlot ''2024-06-01'' ''10:00'' ''a@x.com'' world0) = Inr () \<and>
   fst (bookTimeSlot ''2024-06-01'' ''10:00'' ''b@y.org''
          (snd (bookTimeSlot ''2024-06-01'' ''10:00'' ''a@x.com'' world0))) = Inr () \<and>
   (\<exists>data slots.
      map_of (calendar (snd (bookTimeSlot ''2024-06-01'' ''10:00'' ''b@y.org''
                (snd (bookTimeSlot ''2024-06-01'' ''10:00'' ''a@x.com'' world0))))) ''2024-06-01''
        = Some data \<and>
      ad_slots data = Some slots \<and>
      (\<exists>s \<in> set slots. slot_time s = ''10:00'') \<and>
      (\<forall>s \<in> set slots. slot_time s = ''10:00'' \<longrightarrow>
         slot_bookedBy s = Some ''b@y.org'' \<and> \<not> slot_isAvailable s))"
proof -
  have h: "faults world0 (calls world0) = None" "faults world0 (calls world0 + 1) = None"
    "faults world0 (calls world0 + 2) = None" "faults world0 (calls world0 + 3) = None"
    by (simp_all add: world0_def)
  from bookTimeSlot_last_write_wins [OF h, of "''2024-06-01''" "''10:00''" "''a@x.com''" "''b@y.org''"] h
  show ?thesis by simp
qed

text \<open>
  C7. The record has been written (\<open>record_added\<close> is the world at that point, see
  \<open>addDoc_ok\<close>) and the \<^verbatim>\<open>bookTimeSlot\<close> step then fails. \<^verbatim>\<open>createBooking\<close> raises an
  error, the record is still in the \<^verbatim>\<open>bookings\<close> collection, which holds nothing else
  new, and the calendar is what it was before the call: no slot was marked and nothing was
  undone.
\<close>

theorem createBooking_orphaned_record:
  assumes "faults w (calls w) = None"
    and "fst (bookTimeSlot (b_date booking) (b_time booking) (b_clientEmail booking)
               (record_added booking w)) = Inl e"
  shows "fst (createBooking booking w) = Inl (Error ''Booking failed. Please try again.'') \<and>
         map_of (bookings (snd (createBooking booking w))) (fst (autoId w))
           = Some (fst (cleanBooking booking w)) \<and>
         bookings (snd (createBooking booking w)) =
           AList.update (fst (autoId w)) (fst (cleanBooking booking w)) (bookings w) \<and>
         calendar (snd (createBooking booking w)) = calendar w"
proof -
  let ?w3 = "record_added booking w"
  let ?r = "bookTimeSlot (b_date booking) (b_time booking) (b_clientEmail booking) ?w3"
  from assms(2) have r: "?r = (Inl e, snd ?r)" by (metis prod.collapse)
  have cb: "createBooking booking w = (Inl (Error ''Booking failed. Please try again.''), snd ?r)"
    by (subst createBooking_added [OF assms(1)], subst r) simp
  have "bookings (snd ?r) = bookings ?w3" by (rule bookTimeSlot_bookings)
  then have b: "bookings (snd ?r) =
      AList.update (fst (autoId w)) (fst (cleanBooking booking w)) (bookings w)"
    by (simp add: record_added_def)
  have "calendar (snd ?r) = calendar ?w3" using assms(2) by (rule bookTimeSlot_fail_calendar)
  then have c: "calendar (snd ?r) = calendar w" by (simp add: record_added_def)
  from cb b c show ?thesis by (simp add: update_conv')
qed

theorem createBooking_orphaned_record_witness:
  "faults flaky (calls flaky) = None \<and>
   fst (bookTimeSlot (b_date request0) (b_time request0) (b_clientEmail request0)
               (record_added request0 flaky)) = Inl (FirebaseError ''unavailable'') \<and>
   fst (createBooking request0 flaky) = Inl (Error ''Booking failed. Please try again.'') \<and>
   map_of (bookings (snd (createBooking request0 flaky))) (fst (autoId flaky))
           = Some (fst (cleanBooking request0 flaky)) \<and>
   calendar (snd (createBooking request0 flaky)) = calendar flaky"
proof -
  have h1: "faults flaky (calls flaky) = None" by (simp add: flaky_def world0_def)
  have h2: "fst (bookTimeSlot (b_date request0) (b_time request0) (b_clientEmail request0)
               (record_added request0 flaky)) = Inl (FirebaseError ''unavailable'')"
    by (rule arg_cong [where f = fst, OF bookTimeSlot_read_fails, simplified])
       (simp add: record_added_def flaky_def world0_def)
  from createBooking_orphaned_record [OF h1 h2] h1 h2 show ?thesis by blast
qed

text \<open>
  C8. For a date with no stored document, \<^verbatim>\<open>getDateAvailability\<close> returns \<^verbatim>\<open>null\<close> (when
  the request does not fail), and the availability check \<^verbatim>\<open>isAvailable\<close> of an absent
  document is true.
\<close>

theorem absent_date_is_available:
  assumes "map_of (calendar w) date = None" and "faults w (calls w) = None"
  shows "fst (getDateAvailability date w) = Inr None \<and> isAvailable None = True"
  using assms by (simp add: getDateAvailability_def store_defs isAvailable_def)

theorem absent_date_is_available_witness:
  "map_of (calendar booked_day) ''2024-06-02'' = None \<and> faults booked_day (calls booked_day) = None \<and>
   fst (getDateAvailability ''2024-06-02'' booked_day) = Inr None \<and> isAvailable None = True"
proof -
  have h: "map_of (calendar booked_day) ''2024-06-02'' = None" "faults booked_day (calls booked_day) = None"
    by (simp_all add: sample_defs)
  from absent_date_is_available [OF h] h show ?thesis by simp
qed

text \<open>
  C9. When the request does not fail, \<^verbatim>\<open>getAvailabilityRange(startDate, endDate)\<close> returns
  exactly the stored documents whose \<^verbatim>\<open>date\<close> lies between the two bounds, both included,
  each as often as it is stored, in ascending lexicographic order of \<^verbatim>\<open>date\<close>. In a store
  where every document has its identifier as \<^verbatim>\<open>date\<close>, which the writers of the service
  keep, these are the documents whose identifier lies between the bounds. The statement
  needs no order between the bounds, so it holds for \<open>startDate \<le> endDate\<close>.
\<close>

theorem getAvailabilityRange_result:
  assumes "faults w (calls w) = None"
  shows "\<exists>docs. fst (getAvailabilityRange startDate endDate w) = Inr docs \<and>
           mset docs =
             mset (filter (\<lambda>data. \<exists>d. ad_date data = Some d \<and> startDate \<le> d \<and> d \<le> endDate)
                     (map snd (calendar w))) \<and>
           sorted (map date_of docs) \<and>
           (dates_are_keys w \<longrightarrow>
              mset docs =
                mset (map snd (filter (\<lambda>entry. startDate \<le> fst entry \<and> fst entry \<le> endDate)
                                 (calendar w))))"
proof -
  let ?sel = "filter (\<lambda>entry. date_in_range startDate endDate (snd entry)) (calendar w)"
  let ?docs = "map snd (sort_key query_order ?sel)"
  have res: "fst (getAvailabilityRange startDate endDate w) = Inr ?docs"
    using assms by (simp add: getAvailabilityRange_def getDocs_calendar_range_def store_defs)
  have sel: "mset ?docs = mset (map snd ?sel)" by simp
  have "mset ?docs = image_mset snd (mset ?sel)" by simp
  also have "\<dots> = mset (map snd ?sel)" by simp
  also have "map snd ?sel = filter (date_in_range startDate endDate) (map snd (calendar w))"
    by (simp add: filter_map comp_def)
  finally have m: "mset ?docs =
      mset (filter (\<lambda>data. \<exists>d. ad_date data = Some d \<and> startDate \<le> d \<and> d \<le> endDate)
                     (map snd (calendar w)))"
    by (simp add: date_in_range_iff)
  have "sorted (map query_order (sort_key query_order ?sel))" by (rule sorted_sort_key)
  then have s: "sorted (map date_of ?docs)" by (rule sorted_query_order)
  have k: "mset ?docs =
      mset (map snd (filter (\<lambda>entry. startDate \<le> fst entry \<and> fst entry \<le> endDate) (calendar w)))"
    if "dates_are_keys w"
  proof -
    from that
    have eq: "?sel = filter (\<lambda>entry. startDate \<le> fst entry \<and> fst entry \<le> endDate) (calendar w)"
      by (intro filter_cong) (auto simp: dates_are_keys_def list_all_iff date_in_range_def)
    from sel show ?thesis by (simp only: eq)
  qed
  from res m s k show ?thesis by blast
qed

theorem getAvailabilityRange_result_witness:
  "faults three_days (calls three_days) = None \<and> dates_are_keys three_days \<and>
   (\<exists>docs. fst (getAvailabilityRange ''2024-06-01'' ''2024-06-30'' three_days) = Inr docs \<and>
           mset docs =
             mset (filter (\<lambda>data. \<exists>d. ad_date data = Some d \<and> ''2024-06-01'' \<le> d \<and> d \<le> ''2024-06-30'')
                     (map snd (calendar three_days))) \<and>
           sorted (map date_of docs) \<and>
           mset docs =
                mset (map snd (filter (\<lambda>entry. ''2024-06-01'' \<le> fst entry \<and> fst entry \<le> ''2024-06-30'')
                                 (calendar three_days))))"
proof -
  have h: "faults three_days (calls three_days) = None" "dates_are_keys three_days"
    by (simp_all add: three_days_def world0_def dates_are_keys_def)
  from getAvailabilityRange_result [OF h(1), of "''2024-06-01''" "''2024-06-30''"] h
  show ?thesis by blast
qed

text \<open>
  C10. The document of the date exists and no two of its slots have the same time (a
  document without a \<open>slots\<close> field counts as one with no slot). When neither request
  fails, \<^verbatim>\<open>bookTimeSlot\<close> returns, the slots with another time are afterwards what they
  were, in the same order, and exactly one slot has the given time.
\<close>

theorem bookTimeSlot_keeps_other_slots:
  assumes "map_of (calendar w) date = Some data"
    and "slots = (case ad_slots data of None \<Rightarrow> [] | Some xs \<Rightarrow> xs)"
    and "distinct (map slot_time slots)"
    and "faults w (calls w) = None" and "faults w (calls w + 1) = None"
  shows "fst (bookTimeSlot date time client w) = Inr () \<and>
         (\<exists>data' slots'.
            map_of (calendar (snd (bookTimeSlot date time client w))) date = Some data' \<and>
            ad_slots data' = Some slots' \<and>
            filter (\<lambda>s. slot_time s \<noteq> time) slots' = filter (\<lambda>s. slot_time s \<noteq> time) slots \<and>
            length (filter (\<lambda>s. slot_time s = time) slots') = 1)"
  using assms(3)
  by (simp add: bookTimeSlot_present [OF assms(1,4,5)] update_conv' assms(2) [symmetric]
      updated_slots_others updated_slots_one)

theorem bookTimeSlot_keeps_other_slots_witness:
  "map_of (calendar booked_day) ''2024-06-01'' =
     Some \<lparr>ad_date = Some ''2024-06-01'', ad_isAvailable = Some True,
           ad_slots = Some [\<lparr>slot_time = ''10:00'', slot_isAvailable = False,
                             slot_bookedBy = Some ''a@x.com''\<rparr>],
           ad_updatedAt = Some 7\<rparr> \<and>
   distinct (map slot_time [\<lparr>slot_time = ''10:00'', slot_isAvailable = False,
                             slot_bookedBy = Some ''a@x.com''\<rparr>]) \<and>
   faults booked_day (calls booked_day) = None \<and> faults booked_day (calls booked_day + 1) = None \<and>
   fst (bookTimeSlot ''2024-06-01'' ''11:00'' ''b@y.org'' booked_day) = Inr () \<and>
   (\<exists>data' slots'.
      map_of (calendar (snd (bookTimeSlot ''2024-06-01'' ''11:00'' ''b@y.org'' booked_day)))
        ''2024-06-01'' = Some data' \<and>
      ad_slots data' = Some slots' \<and>
      filter (\<lambda>s. slot_time s \<noteq> ''11:00'') slots' =
        [\<lparr>slot_time = ''10:00'', slot_isAvailable = False, slot_bookedBy = Some ''a@x.com''\<rparr>] \<and>
      length (filter (\<lambda>s. slot_time s = ''11:00'') slots') = 1)"
proof -
  let ?slot = "\<lparr>slot_time = ''10:00'', slot_isAvailable = False, slot_bookedBy = Some ''a@x.com''\<rparr>"
  let ?data = "\<lparr>ad_date = Some ''2024-06-01'', ad_isAvailable = Some True,
           ad_slots = Some [?slot], ad_updatedAt = Some 7\<rparr>"
  have h1: "map_of (calendar booked_day) ''2024-06-01'' = Some ?data"
    by (simp add: booked_day_def world0_def)
  have h2: "[?slot] = (case ad_slots ?data of None \<Rightarrow> [] | Some xs \<Rightarrow> xs)" by simp
  have h3: "distinct (map slot_time [?slot])" by simp
  have h4: "faults booked_day (calls booked_day) = None"
    "faults booked_day (calls booked_day + 1) = None"
    by (simp_all add: booked_day_def world0_def)
  from bookTimeSlot_keeps_other_slots [OF h1 h2 h3 h4, of "''11:00''" "''b@y.org''"] h1 h3 h4
  show ?thesis by simp
qed

end
